theory Spec2Isabelle
  imports Main "HOL-Library.Sublist"
begin

section \<open>The root command of the argo CLI (cmd/argo/commands/root.go)\<close>

text \<open>
  The file has two functions: \<open>NewCommand\<close>, which assembles the root cobra command
  (its subcommands, its persistent flags, its \<open>Run\<close> body and its \<open>PersistentPreRun\<close>
  hook), and \<open>printVersionMismatchWarning\<close>, which the hook calls last.

  Both functions work only through calls into other packages (cobra and pflag, logrus,
  the API client, the operating system). The model keeps every such call: a call that
  only reads is a field of the record \<open>World\<close>, whose value is what the call returns;
  a call that acts (logging, building a client, a request to the server, printing the
  help) is appended to a trace, in program order. What the callee does with it is outside
  this file: an entry handed to the logger is in the trace whether or not the logger's
  level lets it through.
\<close>

subsection \<open>Values of other packages\<close>

text \<open>Go's \<open>error\<close> interface: the code only formats it with \<open>%v\<close>, which is its
  \<open>Error()\<close> text.\<close>

datatype error = errors_New (Error: string)

text \<open>The version structure returned by \<open>argo.GetVersion()\<close> and by the info service.
  Its declaration is in another package; the code reads the field \<open>GitTag\<close>, and every
  other field is kept in \<open>others\<close>, of a type left open.\<close>

record 'o Version =
  GitTag :: string
  others :: 'o

text \<open>\<open>infopkg.GetVersionRequest{}\<close>, a request without fields.\<close>

datatype GetVersionRequest = GetVersionRequest

text \<open>A \<open>context.Context\<close>; \<open>None\<close> is Go's \<open>nil\<close>.\<close>

type_synonym 'ctx Context = "'ctx option"

text \<open>The info-service client and the API client, each by the one method the code
  calls. A Go result pair \<open>(value, err)\<close> is a sum: \<open>Inl err\<close> when \<open>err != nil\<close>,
  \<open>Inr value\<close> otherwise.\<close>

record ('ctx, 'o) InfoServiceClient =
  GetVersion :: "'ctx Context \<Rightarrow> GetVersionRequest \<Rightarrow> error + 'o Version"

record ('ctx, 'o) Client =
  NewInfoServiceClient :: "error + ('ctx, 'o) InfoServiceClient"

subsection \<open>The cobra command\<close>

text \<open>A pflag flag: its name, its one-letter shorthand (empty when it has none), its
  usage line, and its typed default value.\<close>

datatype Value = stringValue string | intValue int | boolValue bool

record Flag =
  Name :: string
  Shorthand :: string
  Usage :: string
  DefValue :: Value

text \<open>The subcommand constructors that \<open>NewCommand\<close> calls. They take no argument and
  live in other files, so a child command is identified by its constructor.\<close>

datatype Subcommand =
    NewCompletionCommand
  | NewDeleteCommand
  | NewGetCommand
  | NewLintCommand
  | NewListCommand
  | NewLogsCommand
  | NewResubmitCommand
  | NewResumeCommand
  | NewRetryCommand
  | NewServerCommand
  | NewSubmitCommand
  | NewSuspendCommand
  | auth_NewAuthCommand
  | NewWaitCommand
  | NewWatchCommand
  | NewCpCommand
  | NewStopCommand
  | NewNodeCommand
  | NewTerminateCommand
  | archive_NewArchiveCommand
  | NewVersionCommand
  | template_NewTemplateCommand
  | cron_NewCronWorkflowCommand
  | clustertemplate_NewClusterTemplateCommand
  | executorplugin_NewRootCommand

text \<open>The fields of \<open>cobra.Command\<close> that the file touches: \<open>Use\<close> and \<open>Short\<close> of the
  struct literal, the children added by \<open>AddCommand\<close>, the flag set behind
  \<open>PersistentFlags()\<close> (the flags a command hands down to its subcommands), and the
  context read by \<open>Context()\<close>. The \<open>Long\<close> help text is left out: nothing reads it.
  The closures stored in \<open>Run\<close> and \<open>PersistentPreRun\<close> are the functions \<open>Run\<close> and
  \<open>PersistentPreRun\<close> below.\<close>

record 'ctx Command =
  Use :: string
  Short :: string
  commands :: "Subcommand list"
  PersistentFlags :: "Flag list"
  ctx :: "'ctx Context"

definition Context :: "'ctx Command \<Rightarrow> 'ctx Context" where
  "Context c = ctx c"

definition AddCommand :: "'ctx Command \<Rightarrow> Subcommand \<Rightarrow> 'ctx Command" where
  "AddCommand c sub = c\<lparr>commands := commands c @ [sub]\<rparr>"

definition StringVar :: "'ctx Command \<Rightarrow> string \<Rightarrow> string \<Rightarrow> string \<Rightarrow> 'ctx Command" where
  "StringVar c name val usage =
     c\<lparr>PersistentFlags := PersistentFlags c @
         [\<lparr>Name = name, Shorthand = [], Usage = usage, DefValue = stringValue val\<rparr>]\<rparr>"

definition IntVar :: "'ctx Command \<Rightarrow> string \<Rightarrow> int \<Rightarrow> string \<Rightarrow> 'ctx Command" where
  "IntVar c name val usage =
     c\<lparr>PersistentFlags := PersistentFlags c @
         [\<lparr>Name = name, Shorthand = [], Usage = usage, DefValue = intValue val\<rparr>]\<rparr>"

definition BoolVarP :: "'ctx Command \<Rightarrow> string \<Rightarrow> string \<Rightarrow> bool \<Rightarrow> string \<Rightarrow> 'ctx Command" where
  "BoolVarP c name shorthand val usage =
     c\<lparr>PersistentFlags := PersistentFlags c @
         [\<lparr>Name = name, Shorthand = shorthand, Usage = usage, DefValue = boolValue val\<rparr>]\<rparr>"

subsection \<open>The world outside the file\<close>

text \<open>What the calls that only read return, and the two helpers of package \<open>client\<close>
  that register further flags on the command (their code is in another file, so they are
  parameters):
  \<^item> \<open>os.LookupEnv\<close>: \<open>Some v\<close> when the variable is present with value \<open>v\<close>;
  \<^item> \<open>client.NewAPIClient\<close>: a context and an API client, no error result;
  \<^item> \<open>argo.GetVersion\<close>: the version of the local build.\<close>

record ('ctx, 'o) World =
  os_LookupEnv :: "string \<Rightarrow> string option"
  client_NewAPIClient :: "'ctx Context \<Rightarrow> 'ctx Context \<times> ('ctx, 'o) Client"
  argo_GetVersion :: "'o Version"
  client_AddKubectlFlagsToCmd :: "'ctx Command \<Rightarrow> 'ctx Command"
  client_AddAPIClientFlagsToCmd :: "'ctx Command \<Rightarrow> 'ctx Command"

text \<open>The calls that act, as they appear in the trace. \<open>Call_Warnf\<close> carries the
  formatted message.\<close>

datatype ('ctx, 'o) call =
    Call_SetLogLevel string
  | Call_SetGLogLevel int
  | Call_WithField_Debug string "'o Version" string
  | Call_Warnf string
  | Call_NewAPIClient "'ctx Context"
  | Call_NewInfoServiceClient
  | Call_GetVersion "'ctx Context" GetVersionRequest
  | Call_HelpFunc "'ctx Command" "string list"

text \<open>The three variables captured by the hook (\<open>glogLevel\<close> is a Go \<open>int\<close>; it is only
  assigned and passed on, never computed with) and the trace.\<close>

record ('ctx, 'o) State =
  logLevel :: string
  glogLevel :: int
  verbose :: bool
  trace :: "('ctx, 'o) call list"

definition record_call :: "('ctx, 'o) call \<Rightarrow> ('ctx, 'o) State \<Rightarrow> ('ctx, 'o) State" where
  "record_call c s = s\<lparr>trace := trace s @ [c]\<rparr>"

subsection \<open>printVersionMismatchWarning\<close>

definition printVersionMismatchWarning ::
  "('ctx, 'o) World \<Rightarrow> 'ctx Command \<Rightarrow> ('ctx, 'o) State \<Rightarrow> ('ctx, 'o) State" where
  "printVersionMismatchWarning w command s =
     (case os_LookupEnv w ''ARGO_SERVER'' of
        None \<Rightarrow> s
      | Some _ \<Rightarrow>
          (let (ctx1, apiClient) = client_NewAPIClient w (Context command);
               s = record_call (Call_NewAPIClient (Context command)) s;
               s = record_call Call_NewInfoServiceClient s
           in case NewInfoServiceClient apiClient of
                Inl err \<Rightarrow>
                  record_call (Call_Warnf (''Failed create service client: '' @ Error err)) s
              | Inr serviceClient \<Rightarrow>
                  (let s = record_call (Call_GetVersion ctx1 GetVersionRequest) s
                   in case GetVersion serviceClient ctx1 GetVersionRequest of
                        Inl err \<Rightarrow>
                          record_call
                            (Call_Warnf (''Failed to connect to Argo Server: '' @ Error err)) s
                      | Inr serverVersion \<Rightarrow>
                          if GitTag serverVersion \<noteq> GitTag (argo_GetVersion w)
                          then record_call
                                 (Call_Warnf
                                    (''CLI version ('' @ GitTag (argo_GetVersion w) @
                                     '') does not match server version ('' @
                                     GitTag serverVersion @
                                     ''). This can lead to unexpected behavior.'')) s
                          else s)))"

subsection \<open>NewCommand, its Run body and its PersistentPreRun hook\<close>

definition CLIName :: string where
  "CLIName = ''argo''"

definition subcommands :: "Subcommand list" where
  "subcommands =
     [NewCompletionCommand, NewDeleteCommand, NewGetCommand, NewLintCommand, NewListCommand,
      NewLogsCommand, NewResubmitCommand, NewResumeCommand, NewRetryCommand, NewServerCommand,
      NewSubmitCommand, NewSuspendCommand, auth_NewAuthCommand, NewWaitCommand, NewWatchCommand,
      NewCpCommand, NewStopCommand, NewNodeCommand, NewTerminateCommand,
      archive_NewArchiveCommand, NewVersionCommand, template_NewTemplateCommand,
      cron_NewCronWorkflowCommand, clustertemplate_NewClusterTemplateCommand,
      executorplugin_NewRootCommand]"

definition Run :: "'ctx Command \<Rightarrow> string list \<Rightarrow> ('ctx, 'o) State \<Rightarrow> ('ctx, 'o) State" where
  "Run cmd args s = record_call (Call_HelpFunc cmd args) s"

definition PersistentPreRun ::
  "('ctx, 'o) World \<Rightarrow> 'ctx Command \<Rightarrow> 'ctx Command \<Rightarrow> string list \<Rightarrow>
   ('ctx, 'o) State \<Rightarrow> ('ctx, 'o) State" where
  "PersistentPreRun w command cmd args s =
     (let s = (if verbose s then s\<lparr>logLevel := ''debug'', glogLevel := 6\<rparr> else s);
          s = record_call (Call_SetLogLevel (logLevel s)) s;
          s = record_call (Call_SetGLogLevel (glogLevel s)) s;
          s = record_call (Call_WithField_Debug ''version'' (argo_GetVersion w) ''CLI version'') s
      in printVersionMismatchWarning w command s)"

definition NewCommand :: "('ctx, 'o) World \<Rightarrow> 'ctx Command" where
  "NewCommand w =
     (let command = \<lparr>Use = CLIName, Short = ''argo is the command line interface to Argo'',
                     commands = [], PersistentFlags = [], ctx = None\<rparr>;
          command = foldl AddCommand command subcommands;
          command = client_AddKubectlFlagsToCmd w command;
          command = client_AddAPIClientFlagsToCmd w command;
          command = StringVar command ''loglevel'' ''info''
                      ''Set the logging level. One of: debug|info|warn|error'';
          command = IntVar command ''gloglevel'' 0 ''Set the glog logging level'';
          command = BoolVarP command ''verbose'' ''v'' False
                      ''Enabled verbose logging, i.e. --loglevel debug''
      in command)"

subsection \<open>Reading a trace\<close>

fun is_warning :: "('ctx, 'o) call \<Rightarrow> bool" where
  "is_warning (Call_Warnf _) = True"
| "is_warning _ = False"

fun is_client_call :: "('ctx, 'o) call \<Rightarrow> bool" where
  "is_client_call (Call_NewAPIClient _) = True"
| "is_client_call Call_NewInfoServiceClient = True"
| "is_client_call (Call_GetVersion _ _) = True"
| "is_client_call _ = False"

subsection \<open>Sample worlds\<close>

text \<open>A world over contexts of type \<open>unit\<close> and versions whose other fields are one
  string: the environment \<open>env\<close>, a client factory that answers \<open>cl\<close>, the local version
  \<open>v\<close>, and helpers that register nothing.\<close>

definition sample_world ::
  "(string \<Rightarrow> string option) \<Rightarrow> (unit, string) Client \<Rightarrow> string Version \<Rightarrow> (unit, string) World" where
  "sample_world env cl v =
     \<lparr>os_LookupEnv = env,
      client_NewAPIClient = (\<lambda>c. (c, cl)),
      argo_GetVersion = v,
      client_AddKubectlFlagsToCmd = (\<lambda>c. c),
      client_AddAPIClientFlagsToCmd = (\<lambda>c. c)\<rparr>"

definition sample_client :: "error + string Version \<Rightarrow> (unit, string) Client" where
  "sample_client r = \<lparr>NewInfoServiceClient = Inr \<lparr>GetVersion = (\<lambda>c q. r)\<rparr>\<rparr>"

definition broken_client :: "error \<Rightarrow> (unit, string) Client" where
  "broken_client e = \<lparr>NewInfoServiceClient = Inl e\<rparr>"

definition sample_command :: "unit Command" where
  "sample_command = \<lparr>Use = CLIName, Short = [], commands = [], PersistentFlags = [],
                     ctx = Some ()\<rparr>"

definition sample_state :: "string \<Rightarrow> int \<Rightarrow> bool \<Rightarrow> (unit, string) State" where
  "sample_state l g v = \<lparr>logLevel = l, glogLevel = g, verbose = v, trace = []\<rparr>"

definition sample_env :: "string \<Rightarrow> string option" where
  "sample_env = [''ARGO_SERVER'' \<mapsto> ''localhost:2746'']"

definition sample_local :: "string Version" where
  "sample_local = \<lparr>GitTag = ''v3.4.0'', others = ''linux/amd64''\<rparr>"

definition sample_remote_same :: "string Version" where
  "sample_remote_same = \<lparr>GitTag = ''v3.4.0'', others = ''darwin/arm64''\<rparr>"

definition sample_remote_old :: "string Version" where
  "sample_remote_old = \<lparr>GitTag = ''v3.3.8'', others = ''linux/amd64''\<rparr>"

definition sample_env_empty :: "string \<Rightarrow> string option" where
  "sample_env_empty = Map.empty(''ARGO_SERVER'' \<mapsto> [])"

text \<open>A world whose \<open>client.AddKubectlFlagsToCmd\<close> registers one persistent flag on the
  command it is given, as the helper's name announces; everything else as in
  \<open>sample_world\<close>.\<close>

definition kubeconfig_world :: "(unit, string) World" where
  "kubeconfig_world =
     (sample_world Map.empty (sample_client (Inr sample_remote_same)) sample_local)
       \<lparr>client_AddKubectlFlagsToCmd :=
          (\<lambda>c. StringVar c ''kubeconfig'' []
                 ''Path to a kube config. Only required if out-of-cluster'')\<rparr>"

section \<open>Auxiliary facts\<close>

text \<open>The state \<open>printVersionMismatchWarning\<close> returns on each of its paths past the
  environment test.\<close>

lemmas pv_defs = printVersionMismatchWarning_def record_call_def Let_def

lemma pv_client_error:
  assumes "os_LookupEnv w ''ARGO_SERVER'' = Some v"
      and "client_NewAPIClient w (Context command) = (ctx1, apiClient)"
      and "NewInfoServiceClient apiClient = Inl err"
  shows "printVersionMismatchWarning w command s =
           s\<lparr>trace := trace s @
                [Call_NewAPIClient (Context command), Call_NewInfoServiceClient,
                 Call_Warnf (''Failed create service client: '' @ Error err)]\<rparr>"
  using assms by (simp add: pv_defs split: prod.splits)

lemma pv_request_error:
  assumes "os_LookupEnv w ''ARGO_SERVER'' = Some v"
      and "client_NewAPIClient w (Context command) = (ctx1, apiClient)"
      and "NewInfoServiceClient apiClient = Inr serviceClient"
      and "GetVersion serviceClient ctx1 GetVersionRequest = Inl err"
  shows "printVersionMismatchWarning w command s =
           s\<lparr>trace := trace s @
                [Call_NewAPIClient (Context command), Call_NewInfoServiceClient,
                 Call_GetVersion ctx1 GetVersionRequest,
                 Call_Warnf (''Failed to connect to Argo Server: '' @ Error err)]\<rparr>"
  using assms by (simp add: pv_defs)

lemma pv_response:
  assumes "os_LookupEnv w ''ARGO_SERVER'' = Some v"
      and "client_NewAPIClient w (Context command) = (ctx1, apiClient)"
      and "NewInfoServiceClient apiClient = Inr serviceClient"
      and "GetVersion serviceClient ctx1 GetVersionRequest = Inr serverVersion"
  shows "printVersionMismatchWarning w command s =
           s\<lparr>trace := trace s @
                [Call_NewAPIClient (Context command), Call_NewInfoServiceClient,
                 Call_GetVersion ctx1 GetVersionRequest] @
                (if GitTag serverVersion \<noteq> GitTag (argo_GetVersion w)
                 then [Call_Warnf (''CLI version ('' @ GitTag (argo_GetVersion w) @
                                   '') does not match server version ('' @
                                   GitTag serverVersion @
                                   ''). This can lead to unexpected behavior.'')]
                 else [])\<rparr>"
  using assms by (simp add: pv_defs)

text \<open>On every path the check only appends client calls and at most one warning.\<close>

lemma pv_shape:
  "\<exists>calls. printVersionMismatchWarning w command s = s\<lparr>trace := trace s @ calls\<rparr> \<and>
           length (filter is_warning calls) \<le> 1 \<and>
           list_all (\<lambda>c. is_client_call c \<or> is_warning c) calls"
proof (cases "os_LookupEnv w ''ARGO_SERVER''")
  case None
  then have "printVersionMismatchWarning w command s = s\<lparr>trace := trace s @ []\<rparr>"
    by (simp add: printVersionMismatchWarning_def)
  then show ?thesis by (intro exI [of _ "[]"]) simp
next
  case (Some v)
  obtain ctx1 apiClient where f: "client_NewAPIClient w (Context command) = (ctx1, apiClient)"
    by (cases "client_NewAPIClient w (Context command)")
  show ?thesis
  proof (cases "NewInfoServiceClient apiClient")
    case (Inl err)
    show ?thesis
      by (rule exI [of _ "[Call_NewAPIClient (Context command), Call_NewInfoServiceClient,
                 Call_Warnf (''Failed create service client: '' @ Error err)]"])
         (simp add: pv_client_error [OF Some f Inl])
  next
    case (Inr serviceClient)
    show ?thesis
    proof (cases "GetVersion serviceClient ctx1 GetVersionRequest")
      case (Inl err)
      show ?thesis
        by (rule exI [of _ "[Call_NewAPIClient (Context command), Call_NewInfoServiceClient,
                 Call_GetVersion ctx1 GetVersionRequest,
                 Call_Warnf (''Failed to connect to Argo Server: '' @ Error err)]"])
           (simp add: pv_request_error [OF Some f Inr Inl])
    next
      case r: (Inr serverVersion)
      show ?thesis
        by (rule exI [of _ "[Call_NewAPIClient (Context command), Call_NewInfoServiceClient,
                 Call_GetVersion ctx1 GetVersionRequest] @
                (if GitTag serverVersion \<noteq> GitTag (argo_GetVersion w)
                 then [Call_Warnf (''CLI version ('' @ GitTag (argo_GetVersion w) @
                                   '') does not match server version ('' @
                                   GitTag serverVersion @
                                   ''). This can lead to unexpected behavior.'')]
                 else [])"])
           (simp add: pv_response [OF Some f Inr r])
    qed
  qed
qed

text \<open>The hook is the check run on the state left by the override and the three calls
  that precede it.\<close>

lemma hook_unfold:
  "PersistentPreRun w command cmd args s =
     printVersionMismatchWarning w command
        (s\<lparr>logLevel := (if verbose s then ''debug'' else logLevel s),
           glogLevel := (if verbose s then 6 else glogLevel s),
           trace := trace s @
             [Call_SetLogLevel (if verbose s then ''debug'' else logLevel s),
              Call_SetGLogLevel (if verbose s then 6 else glogLevel s),
              Call_WithField_Debug ''version'' (argo_GetVersion w) ''CLI version'']\<rparr>)"
  by (simp add: PersistentPreRun_def record_call_def Let_def)

lemma sublist_mid2: "sublist b (p @ a @ q @ b @ r)"
proof -
  have "sublist b ((p @ a @ q) @ b @ r)" by (rule sublist_appendI)
  then show ?thesis by (simp only: append_assoc)
qed

section \<open>The pre-run hook\<close>

text \<open>
  C1. Whatever the three flag variables hold when the hook runs: if \<open>verbose\<close> is true,
  the hook leaves \<open>logLevel = "debug"\<close> and \<open>glogLevel = 6\<close>, and its first two calls
  are \<open>cli.SetLogLevel("debug")\<close> and \<open>cmdutil.SetGLogLevel(6)\<close>, so the values given
  with \<open>--loglevel\<close> and \<open>--gloglevel\<close> are overridden before the loggers are
  configured; if \<open>verbose\<close> is false, both variables keep their parsed values and the
  loggers are configured with them.
\<close>

theorem PersistentPreRun_verbose:
  "if verbose s
   then logLevel (PersistentPreRun w command cmd args s) = ''debug'' \<and>
        glogLevel (PersistentPreRun w command cmd args s) = 6 \<and>
        (\<exists>rest. trace (PersistentPreRun w command cmd args s) =
           trace s @ Call_SetLogLevel ''debug'' # Call_SetGLogLevel 6 # rest)
   else logLevel (PersistentPreRun w command cmd args s) = logLevel s \<and>
        glogLevel (PersistentPreRun w command cmd args s) = glogLevel s \<and>
        (\<exists>rest. trace (PersistentPreRun w command cmd args s) =
           trace s @ Call_SetLogLevel (logLevel s) # Call_SetGLogLevel (glogLevel s) # rest)"
proof -
  let ?s1 = "s\<lparr>logLevel := (if verbose s then ''debug'' else logLevel s),
           glogLevel := (if verbose s then 6 else glogLevel s),
           trace := trace s @
             [Call_SetLogLevel (if verbose s then ''debug'' else logLevel s),
              Call_SetGLogLevel (if verbose s then 6 else glogLevel s),
              Call_WithField_Debug ''version'' (argo_GetVersion w) ''CLI version'']\<rparr>"
  obtain calls where "printVersionMismatchWarning w command ?s1 = ?s1\<lparr>trace := trace ?s1 @ calls\<rparr>"
    using pv_shape [of w command ?s1] by blast
  then have "PersistentPreRun w command cmd args s = ?s1\<lparr>trace := trace ?s1 @ calls\<rparr>"
    by (simp only: hook_unfold)
  then show ?thesis by simp
qed

theorem PersistentPreRun_verbose_witness:
  "PersistentPreRun (sample_world Map.empty (sample_client (Inr sample_remote_old)) sample_local)
      sample_command sample_command [] (sample_state ''error'' 2 True) =
     \<lparr>logLevel = ''debug'', glogLevel = 6, verbose = True,
      trace = [Call_SetLogLevel ''debug'', Call_SetGLogLevel 6,
               Call_WithField_Debug ''version'' sample_local ''CLI version'']\<rparr> \<and>
   PersistentPreRun (sample_world Map.empty (sample_client (Inr sample_remote_old)) sample_local)
      sample_command sample_command [] (sample_state ''warn'' 3 False) =
     \<lparr>logLevel = ''warn'', glogLevel = 3, verbose = False,
      trace = [Call_SetLogLevel ''warn'', Call_SetGLogLevel 3,
               Call_WithField_Debug ''version'' sample_local ''CLI version'']\<rparr>"
  using
    PersistentPreRun_verbose [of "sample_state ''error'' 2 True"
      "sample_world Map.empty (sample_client (Inr sample_remote_old)) sample_local"
      sample_command sample_command "[]"]
    PersistentPreRun_verbose [of "sample_state ''warn'' 3 False"
      "sample_world Map.empty (sample_client (Inr sample_remote_old)) sample_local"
      sample_command sample_command "[]"]
  by (simp add: PersistentPreRun_def printVersionMismatchWarning_def record_call_def
        sample_world_def sample_state_def)

section \<open>The compatibility check\<close>


text \<open>
  C2. When \<open>ARGO_SERVER\<close> is not in the environment, \<open>printVersionMismatchWarning\<close>
  returns at once: the state it returns is the state it was given, so the trace has no
  new call (the client factory is not invoked, no request is sent, no warning is logged).
\<close>

theorem printVersionMismatchWarning_env_unset:
  assumes "os_LookupEnv w ''ARGO_SERVER'' = None"
  shows "printVersionMismatchWarning w command s = s"
  using assms by (simp add: printVersionMismatchWarning_def)

theorem printVersionMismatchWarning_env_unset_witness:
  "os_LookupEnv (sample_world Map.empty (sample_client (Inr \<lparr>GitTag = ''v3.3.8'', others = []\<rparr>))
       \<lparr>GitTag = ''v3.4.0'', others = []\<rparr>) ''ARGO_SERVER'' = None \<and>
   trace (printVersionMismatchWarning
       (sample_world Map.empty (sample_client (Inr \<lparr>GitTag = ''v3.3.8'', others = []\<rparr>))
          \<lparr>GitTag = ''v3.4.0'', others = []\<rparr>)
       sample_command (sample_state ''info'' 0 False)) = []"
proof -
  have h: "os_LookupEnv (sample_world Map.empty (sample_client (Inr \<lparr>GitTag = ''v3.3.8'', others = []\<rparr>))
       \<lparr>GitTag = ''v3.4.0'', others = []\<rparr>) ''ARGO_SERVER'' = None"
    by (simp add: sample_world_def)
  show ?thesis
    using h printVersionMismatchWarning_env_unset [OF h, of sample_command "sample_state ''info'' 0 False"]
    by (simp add: sample_state_def)
qed

text \<open>
  C9. The gate looks at the presence of \<open>ARGO_SERVER\<close>, not at its value: whenever the
  variable is present, with any value \<open>v\<close> (the empty string included, as in the
  instance that follows), the check goes on to \<open>client.NewAPIClient\<close> and
  \<open>NewInfoServiceClient\<close>, and does not return the state untouched.
\<close>

theorem printVersionMismatchWarning_env_present:
  assumes "os_LookupEnv w ''ARGO_SERVER'' = Some v"
  shows "(\<exists>rest. trace (printVersionMismatchWarning w command s) =
            trace s @ Call_NewAPIClient (Context command) # Call_NewInfoServiceClient # rest) \<and>
         printVersionMismatchWarning w command s \<noteq> s"
proof -
  obtain ctx1 apiClient where f: "client_NewAPIClient w (Context command) = (ctx1, apiClient)"
    by (cases "client_NewAPIClient w (Context command)")
  have ex: "\<exists>rest. trace (printVersionMismatchWarning w command s) =
            trace s @ Call_NewAPIClient (Context command) # Call_NewInfoServiceClient # rest"
  proof (cases "NewInfoServiceClient apiClient")
    case (Inl err)
    show ?thesis by (simp add: pv_client_error [OF assms f Inl])
  next
    case (Inr serviceClient)
    show ?thesis
    proof (cases "GetVersion serviceClient ctx1 GetVersionRequest")
      case (Inl err)
      show ?thesis by (simp add: pv_request_error [OF assms f Inr Inl])
    next
      case r: (Inr serverVersion)
      show ?thesis by (simp add: pv_response [OF assms f Inr r])
    qed
  qed
  then obtain rest where "trace (printVersionMismatchWarning w command s) =
            trace s @ Call_NewAPIClient (Context command) # Call_NewInfoServiceClient # rest" ..
  then have "trace (printVersionMismatchWarning w command s) \<noteq> trace s" by simp
  then have "printVersionMismatchWarning w command s \<noteq> s" by auto
  with ex show ?thesis ..
qed

theorem printVersionMismatchWarning_env_present_witness:
  "os_LookupEnv (sample_world sample_env_empty (sample_client (Inr sample_remote_same)) sample_local)
      ''ARGO_SERVER'' = Some [] \<and>
   trace (printVersionMismatchWarning
            (sample_world sample_env_empty (sample_client (Inr sample_remote_same)) sample_local)
            sample_command (sample_state ''info'' 0 False)) =
     [Call_NewAPIClient (Some ()), Call_NewInfoServiceClient,
      Call_GetVersion (Some ()) GetVersionRequest]"
proof -
  let ?w = "sample_world sample_env_empty (sample_client (Inr sample_remote_same)) sample_local"
  have h1: "os_LookupEnv ?w ''ARGO_SERVER'' = Some []"
    by (simp add: sample_world_def sample_env_empty_def)
  show ?thesis
    using h1 printVersionMismatchWarning_env_present [OF h1,
        where s = "sample_state ''info'' 0 False" and command = sample_command]
    by (simp add: printVersionMismatchWarning_def record_call_def sample_world_def
          sample_env_empty_def sample_client_def sample_state_def sample_local_def
          sample_remote_same_def Context_def sample_command_def)
qed

text \<open>
  C3. When \<open>ARGO_SERVER\<close> is present and \<open>NewInfoServiceClient\<close> returns an error, the
  check makes the two client-construction calls, logs one warning whose message contains
  the error's text, sends no \<open>GetVersion\<close> request, and returns; the whole hook then
  has logged exactly that one warning.
\<close>

theorem printVersionMismatchWarning_client_error:
  assumes "os_LookupEnv w ''ARGO_SERVER'' = Some v"
      and "client_NewAPIClient w (Context command) = (ctx1, apiClient)"
      and "NewInfoServiceClient apiClient = Inl err"
  shows "printVersionMismatchWarning w command s =
           s\<lparr>trace := trace s @
                [Call_NewAPIClient (Context command), Call_NewInfoServiceClient,
                 Call_Warnf (''Failed create service client: '' @ Error err)]\<rparr> \<and>
         sublist (Error err) (''Failed create service client: '' @ Error err) \<and>
         filter is_warning (trace (PersistentPreRun w command cmd args s)) =
           filter is_warning (trace s) @
             [Call_Warnf (''Failed create service client: '' @ Error err)]"
proof (intro conjI)
  show "printVersionMismatchWarning w command s =
           s\<lparr>trace := trace s @
                [Call_NewAPIClient (Context command), Call_NewInfoServiceClient,
                 Call_Warnf (''Failed create service client: '' @ Error err)]\<rparr>"
    using assms by (rule pv_client_error)
  show "sublist (Error err) (''Failed create service client: '' @ Error err)"
    by (rule sublist_append_leftI)
  show "filter is_warning (trace (PersistentPreRun w command cmd args s)) =
           filter is_warning (trace s) @
             [Call_Warnf (''Failed create service client: '' @ Error err)]"
    by (simp only: hook_unfold pv_client_error [OF assms]) simp
qed

theorem printVersionMismatchWarning_client_error_witness:
  "os_LookupEnv (sample_world sample_env (broken_client (errors_New ''no configuration'')) sample_local)
      ''ARGO_SERVER'' = Some ''localhost:2746'' \<and>
   NewInfoServiceClient (broken_client (errors_New ''no configuration'') :: (unit, string) Client) =
      Inl (errors_New ''no configuration'') \<and>
   trace (printVersionMismatchWarning
            (sample_world sample_env (broken_client (errors_New ''no configuration'')) sample_local)
            sample_command (sample_state ''info'' 0 False)) =
     [Call_NewAPIClient (Some ()), Call_NewInfoServiceClient,
      Call_Warnf ''Failed create service client: no configuration''] \<and>
   filter is_warning (trace (PersistentPreRun
            (sample_world sample_env (broken_client (errors_New ''no configuration'')) sample_local)
            sample_command sample_command [] (sample_state ''info'' 0 False))) =
     [Call_Warnf ''Failed create service client: no configuration'']"
proof -
  let ?e = "errors_New ''no configuration''"
  let ?w = "sample_world sample_env (broken_client ?e) sample_local"
  have h1: "os_LookupEnv ?w ''ARGO_SERVER'' = Some ''localhost:2746''"
    by (simp add: sample_world_def sample_env_def)
  have h2: "client_NewAPIClient ?w (Context sample_command) = (Some (), broken_client ?e)"
    by (simp add: sample_world_def Context_def sample_command_def)
  have h3: "NewInfoServiceClient (broken_client ?e :: (unit, string) Client) = Inl ?e"
    by (simp add: broken_client_def)
  show ?thesis
    using h1 h3
      printVersionMismatchWarning_client_error [OF h1 h2 h3,
        where s = "sample_state ''info'' 0 False" and cmd = sample_command and args = "[]"]
    by (simp add: sample_state_def Context_def sample_command_def)
qed

text \<open>
  C4. When the client is built and the one \<open>GetVersion\<close> request returns an error, the
  check logs one warning whose message contains the error's text and returns. No version
  is compared: the result is the same whatever the local version is.
\<close>

theorem printVersionMismatchWarning_request_error:
  assumes "os_LookupEnv w ''ARGO_SERVER'' = Some v"
      and "client_NewAPIClient w (Context command) = (ctx1, apiClient)"
      and "NewInfoServiceClient apiClient = Inr serviceClient"
      and "GetVersion serviceClient ctx1 GetVersionRequest = Inl err"
  shows "printVersionMismatchWarning w command s =
           s\<lparr>trace := trace s @
                [Call_NewAPIClient (Context command), Call_NewInfoServiceClient,
                 Call_GetVersion ctx1 GetVersionRequest,
                 Call_Warnf (''Failed to connect to Argo Server: '' @ Error err)]\<rparr> \<and>
         sublist (Error err) (''Failed to connect to Argo Server: '' @ Error err) \<and>
         printVersionMismatchWarning (w\<lparr>argo_GetVersion := local\<rparr>) command s =
           printVersionMismatchWarning w command s"
proof (intro conjI)
  show "printVersionMismatchWarning w command s =
           s\<lparr>trace := trace s @
                [Call_NewAPIClient (Context command), Call_NewInfoServiceClient,
                 Call_GetVersion ctx1 GetVersionRequest,
                 Call_Warnf (''Failed to connect to Argo Server: '' @ Error err)]\<rparr>"
    using assms by (rule pv_request_error)
  show "sublist (Error err) (''Failed to connect to Argo Server: '' @ Error err)"
    by (rule sublist_append_leftI)
  have "printVersionMismatchWarning (w\<lparr>argo_GetVersion := local\<rparr>) command s =
           s\<lparr>trace := trace s @
                [Call_NewAPIClient (Context command), Call_NewInfoServiceClient,
                 Call_GetVersion ctx1 GetVersionRequest,
                 Call_Warnf (''Failed to connect to Argo Server: '' @ Error err)]\<rparr>"
    using assms by (intro pv_request_error) simp_all
  then show "printVersionMismatchWarning (w\<lparr>argo_GetVersion := local\<rparr>) command s =
           printVersionMismatchWarning w command s"
    by (simp only: pv_request_error [OF assms])
qed

theorem printVersionMismatchWarning_request_error_witness:
  "os_LookupEnv (sample_world sample_env (sample_client (Inl (errors_New ''connection refused''))) sample_local)
      ''ARGO_SERVER'' = Some ''localhost:2746'' \<and>
   trace (printVersionMismatchWarning
            (sample_world sample_env (sample_client (Inl (errors_New ''connection refused''))) sample_local)
            sample_command (sample_state ''info'' 0 False)) =
     [Call_NewAPIClient (Some ()), Call_NewInfoServiceClient,
      Call_GetVersion (Some ()) GetVersionRequest,
      Call_Warnf ''Failed to connect to Argo Server: connection refused''] \<and>
   printVersionMismatchWarning
      ((sample_world sample_env (sample_client (Inl (errors_New ''connection refused''))) sample_local)
         \<lparr>argo_GetVersion := sample_remote_old\<rparr>)
      sample_command (sample_state ''info'' 0 False) =
   printVersionMismatchWarning
      (sample_world sample_env (sample_client (Inl (errors_New ''connection refused''))) sample_local)
      sample_command (sample_state ''info'' 0 False)"
proof -
  let ?e = "errors_New ''connection refused''"
  let ?w = "sample_world sample_env (sample_client (Inl ?e)) sample_local"
  have h1: "os_LookupEnv ?w ''ARGO_SERVER'' = Some ''localhost:2746''"
    by (simp add: sample_world_def sample_env_def)
  have h2: "client_NewAPIClient ?w (Context sample_command) = (Some (), sample_client (Inl ?e))"
    by (simp add: sample_world_def Context_def sample_command_def)
  have h3: "NewInfoServiceClient (sample_client (Inl ?e)) = Inr \<lparr>GetVersion = (\<lambda>c q. Inl ?e)\<rparr>"
    by (simp add: sample_client_def)
  have h4: "GetVersion \<lparr>GetVersion = (\<lambda>c q. Inl ?e :: error + string Version)\<rparr> (Some ()) GetVersionRequest = Inl ?e"
    by simp
  show ?thesis
    using h1
      printVersionMismatchWarning_request_error [OF h1 h2 h3 h4,
        where s = "sample_state ''info'' 0 False" and local = sample_remote_old]
    by (simp add: sample_state_def Context_def sample_command_def)
qed

text \<open>
  C5. When \<open>GetVersion\<close> succeeds, the remote \<open>GitTag\<close> and the local \<open>GitTag\<close> are
  compared as strings. Equal: nothing is logged, the trace ends with the request.
  Different: one warning is logged, and its message contains both the local and the remote
  tag.
\<close>

theorem printVersionMismatchWarning_compare:
  assumes "os_LookupEnv w ''ARGO_SERVER'' = Some v"
      and "client_NewAPIClient w (Context command) = (ctx1, apiClient)"
      and "NewInfoServiceClient apiClient = Inr serviceClient"
      and "GetVersion serviceClient ctx1 GetVersionRequest = Inr serverVersion"
  shows "if GitTag serverVersion = GitTag (argo_GetVersion w)
         then printVersionMismatchWarning w command s =
                s\<lparr>trace := trace s @
                     [Call_NewAPIClient (Context command), Call_NewInfoServiceClient,
                      Call_GetVersion ctx1 GetVersionRequest]\<rparr>
         else printVersionMismatchWarning w command s =
                s\<lparr>trace := trace s @
                     [Call_NewAPIClient (Context command), Call_NewInfoServiceClient,
                      Call_GetVersion ctx1 GetVersionRequest,
                      Call_Warnf (''CLI version ('' @ GitTag (argo_GetVersion w) @
                                  '') does not match server version ('' @
                                  GitTag serverVersion @
                                  ''). This can lead to unexpected behavior.'')]\<rparr> \<and>
              sublist (GitTag (argo_GetVersion w))
                (''CLI version ('' @ GitTag (argo_GetVersion w) @
                 '') does not match server version ('' @ GitTag serverVersion @
                 ''). This can lead to unexpected behavior.'') \<and>
              sublist (GitTag serverVersion)
                (''CLI version ('' @ GitTag (argo_GetVersion w) @
                 '') does not match server version ('' @ GitTag serverVersion @
                 ''). This can lead to unexpected behavior.'')"
proof (cases "GitTag serverVersion = GitTag (argo_GetVersion w)")
  case True
  then show ?thesis by (simp add: pv_response [OF assms])
next
  case False
  have "printVersionMismatchWarning w command s =
                s\<lparr>trace := trace s @
                     [Call_NewAPIClient (Context command), Call_NewInfoServiceClient,
                      Call_GetVersion ctx1 GetVersionRequest,
                      Call_Warnf (''CLI version ('' @ GitTag (argo_GetVersion w) @
                                  '') does not match server version ('' @
                                  GitTag serverVersion @
                                  ''). This can lead to unexpected behavior.'')]\<rparr>"
    using False by (simp add: pv_response [OF assms])
  moreover have "sublist (GitTag (argo_GetVersion w))
                (''CLI version ('' @ GitTag (argo_GetVersion w) @
                 '') does not match server version ('' @ GitTag serverVersion @
                 ''). This can lead to unexpected behavior.'')"
    by (rule sublist_appendI)
  moreover have "sublist (GitTag serverVersion)
                (''CLI version ('' @ GitTag (argo_GetVersion w) @
                 '') does not match server version ('' @ GitTag serverVersion @
                 ''). This can lead to unexpected behavior.'')"
    by (rule sublist_mid2)
  ultimately show ?thesis using False by (simp only: if_False simp_thms)
qed

theorem printVersionMismatchWarning_compare_witness:
  "trace (printVersionMismatchWarning
            (sample_world sample_env (sample_client (Inr sample_remote_same)) sample_local)
            sample_command (sample_state ''info'' 0 False)) =
     [Call_NewAPIClient (Some ()), Call_NewInfoServiceClient,
      Call_GetVersion (Some ()) GetVersionRequest] \<and>
   trace (printVersionMismatchWarning
            (sample_world sample_env (sample_client (Inr sample_remote_old)) sample_local)
            sample_command (sample_state ''info'' 0 False)) =
     [Call_NewAPIClient (Some ()), Call_NewInfoServiceClient,
      Call_GetVersion (Some ()) GetVersionRequest,
      Call_Warnf ''CLI version (v3.4.0) does not match server version (v3.3.8). This can lead to unexpected behavior.''] \<and>
   sublist ''v3.4.0''
      ''CLI version (v3.4.0) does not match server version (v3.3.8). This can lead to unexpected behavior.'' \<and>
   sublist ''v3.3.8''
      ''CLI version (v3.4.0) does not match server version (v3.3.8). This can lead to unexpected behavior.''"
proof -
  let ?w = "\<lambda>r. sample_world sample_env (sample_client (Inr r)) sample_local"
  have h1: "os_LookupEnv (?w r) ''ARGO_SERVER'' = Some ''localhost:2746''" for r
    by (simp add: sample_world_def sample_env_def)
  have h2: "client_NewAPIClient (?w r) (Context sample_command) = (Some (), sample_client (Inr r))" for r
    by (simp add: sample_world_def Context_def sample_command_def)
  have h3: "NewInfoServiceClient (sample_client (Inr r)) = Inr \<lparr>GetVersion = (\<lambda>c q. Inr r)\<rparr>" for r
    by (simp add: sample_client_def)
  have h4: "GetVersion \<lparr>GetVersion = (\<lambda>c q. Inr r :: error + string Version)\<rparr> (Some ()) GetVersionRequest = Inr r" for r
    by simp
  show ?thesis
    using
      printVersionMismatchWarning_compare [OF h1 [of sample_remote_same] h2 [of sample_remote_same] h3 [of sample_remote_same] h4 [of sample_remote_same],
        where s = "sample_state ''info'' 0 False"]
      printVersionMismatchWarning_compare [OF h1 [of sample_remote_old] h2 [of sample_remote_old] h3 [of sample_remote_old] h4 [of sample_remote_old],
        where s = "sample_state ''info'' 0 False"]
    by (simp add: sample_state_def sample_world_def sample_local_def sample_remote_same_def
          sample_remote_old_def Context_def sample_command_def)
qed

text \<open>
  C10. The comparison reads the field \<open>GitTag\<close> only: for any local and remote version
  structures with equal \<open>GitTag\<close>, whatever their other fields, the check logs no
  warning.
\<close>

theorem printVersionMismatchWarning_reads_GitTag_only:
  assumes "os_LookupEnv w ''ARGO_SERVER'' = Some v"
      and "client_NewAPIClient w (Context command) = (ctx1, apiClient)"
      and "NewInfoServiceClient apiClient = Inr serviceClient"
      and "GetVersion serviceClient ctx1 GetVersionRequest = Inr serverVersion"
      and "GitTag serverVersion = GitTag (argo_GetVersion w)"
  shows "printVersionMismatchWarning w command s =
           s\<lparr>trace := trace s @
                [Call_NewAPIClient (Context command), Call_NewInfoServiceClient,
                 Call_GetVersion ctx1 GetVersionRequest]\<rparr> \<and>
         filter is_warning (trace (printVersionMismatchWarning w command s)) =
           filter is_warning (trace s)"
  using assms(5) by (simp add: pv_response [OF assms(1-4)])

theorem printVersionMismatchWarning_reads_GitTag_only_witness:
  "GitTag sample_remote_same = GitTag sample_local \<and>
   others sample_remote_same \<noteq> others sample_local \<and>
   trace (printVersionMismatchWarning
            (sample_world sample_env (sample_client (Inr sample_remote_same)) sample_local)
            sample_command (sample_state ''info'' 0 False)) =
     [Call_NewAPIClient (Some ()), Call_NewInfoServiceClient,
      Call_GetVersion (Some ()) GetVersionRequest]"
proof -
  let ?w = "sample_world sample_env (sample_client (Inr sample_remote_same)) sample_local"
  have h1: "os_LookupEnv ?w ''ARGO_SERVER'' = Some ''localhost:2746''"
    by (simp add: sample_world_def sample_env_def)
  have h2: "client_NewAPIClient ?w (Context sample_command) =
              (Some (), sample_client (Inr sample_remote_same))"
    by (simp add: sample_world_def Context_def sample_command_def)
  have h3: "NewInfoServiceClient (sample_client (Inr sample_remote_same)) =
              Inr \<lparr>GetVersion = (\<lambda>c q. Inr sample_remote_same)\<rparr>"
    by (simp add: sample_client_def)
  have h4: "GetVersion \<lparr>GetVersion = (\<lambda>c q. Inr sample_remote_same :: error + string Version)\<rparr>
              (Some ()) GetVersionRequest = Inr sample_remote_same"
    by simp
  have h5: "GitTag sample_remote_same = GitTag (argo_GetVersion ?w)"
    by (simp add: sample_world_def sample_remote_same_def sample_local_def)
  show ?thesis
    using printVersionMismatchWarning_reads_GitTag_only [OF h1 h2 h3 h4 h5,
        where s = "sample_state ''info'' 0 False"]
    by (simp add: sample_state_def sample_local_def sample_remote_same_def Context_def
          sample_command_def)
qed

text \<open>
  C6. In every world (variable absent, client construction failing, request failing,
  versions equal, versions different) the check returns a state: the state it was given
  with some calls appended to the trace. The function has no result besides, so no error
  reaches the hook; each appended call is a client call or a \<open>Warnf\<close> (nothing that
  ends the process), at most one of them is a warning, and the hook as a whole logs at most
  one warning. The collaborators are taken to return as their signatures say.
\<close>

theorem printVersionMismatchWarning_never_fails:
  "(\<exists>calls. printVersionMismatchWarning w command s = s\<lparr>trace := trace s @ calls\<rparr> \<and>
            length (filter is_warning calls) \<le> 1 \<and>
            list_all (\<lambda>c. is_client_call c \<or> is_warning c) calls) \<and>
   length (filter is_warning (trace (PersistentPreRun w command cmd args s))) \<le>
     length (filter is_warning (trace s)) + 1"
proof
  show "\<exists>calls. printVersionMismatchWarning w command s = s\<lparr>trace := trace s @ calls\<rparr> \<and>
            length (filter is_warning calls) \<le> 1 \<and>
            list_all (\<lambda>c. is_client_call c \<or> is_warning c) calls"
    by (rule pv_shape)
next
  let ?s1 = "s\<lparr>logLevel := (if verbose s then ''debug'' else logLevel s),
           glogLevel := (if verbose s then 6 else glogLevel s),
           trace := trace s @
             [Call_SetLogLevel (if verbose s then ''debug'' else logLevel s),
              Call_SetGLogLevel (if verbose s then 6 else glogLevel s),
              Call_WithField_Debug ''version'' (argo_GetVersion w) ''CLI version'']\<rparr>"
  obtain calls where c: "printVersionMismatchWarning w command ?s1 = ?s1\<lparr>trace := trace ?s1 @ calls\<rparr>"
    and n: "length (filter is_warning calls) \<le> 1"
    using pv_shape [of w command ?s1] by blast
  have "trace (PersistentPreRun w command cmd args s) = trace ?s1 @ calls"
    by (simp only: hook_unfold c) simp
  then show "length (filter is_warning (trace (PersistentPreRun w command cmd args s))) \<le>
     length (filter is_warning (trace s)) + 1"
    using n by simp
qed

theorem printVersionMismatchWarning_never_fails_witness:
  "length (filter is_warning (trace (PersistentPreRun
      (sample_world sample_env (sample_client (Inr sample_remote_old)) sample_local)
      sample_command sample_command [] (sample_state ''info'' 0 False)))) \<le> 1"
  using printVersionMismatchWarning_never_fails
    [of "sample_world sample_env (sample_client (Inr sample_remote_old)) sample_local"
        sample_command "sample_state ''info'' 0 False" sample_command "[]"]
  by (simp add: sample_state_def)

section \<open>The root command\<close>

text \<open>
  C7 (as amended). \<open>NewCommand\<close> itself declares exactly three persistent flags, which it
  appends, in this order, after whatever the two helpers of package \<open>client\<close>
  (\<open>AddKubectlFlagsToCmd\<close>, \<open>AddAPIClientFlagsToCmd\<close>) registered on the command:
  \<open>loglevel\<close>, a string with default \<open>"info"\<close>; \<open>gloglevel\<close>, an integer with default
  \<open>0\<close>; \<open>verbose\<close>, a boolean with shorthand \<open>v\<close> and default \<open>false\<close>. The struct
  literal starts without flags, so the persistent flag set of the root command is the
  helpers' flags followed by these three.
\<close>

theorem NewCommand_persistent_flags:
  "PersistentFlags (NewCommand w) =
     PersistentFlags
       (client_AddAPIClientFlagsToCmd w
          (client_AddKubectlFlagsToCmd w
             (foldl AddCommand
                \<lparr>Use = CLIName, Short = ''argo is the command line interface to Argo'',
                 commands = [], PersistentFlags = [], ctx = None\<rparr>
                subcommands))) @
     [\<lparr>Name = ''loglevel'', Shorthand = [],
       Usage = ''Set the logging level. One of: debug|info|warn|error'',
       DefValue = stringValue ''info''\<rparr>,
      \<lparr>Name = ''gloglevel'', Shorthand = [],
       Usage = ''Set the glog logging level'',
       DefValue = intValue 0\<rparr>,
      \<lparr>Name = ''verbose'', Shorthand = ''v'',
       Usage = ''Enabled verbose logging, i.e. --loglevel debug'',
       DefValue = boolValue False\<rparr>]"
  by (simp add: NewCommand_def Let_def StringVar_def IntVar_def BoolVarP_def)

text \<open>
  C7 as first stated, that the root command has exactly three persistent flags, fails as
  soon as a helper registers a flag: in \<open>kubeconfig_world\<close> the root command has four,
  \<open>kubeconfig\<close> before the three above.
\<close>

theorem NewCommand_persistent_flags_counterexample:
  "length (PersistentFlags (NewCommand kubeconfig_world)) \<noteq> 3 \<and>
   map Name (PersistentFlags (NewCommand kubeconfig_world)) =
     [''kubeconfig'', ''loglevel'', ''gloglevel'', ''verbose'']"
  by (simp add: NewCommand_def kubeconfig_world_def sample_world_def subcommands_def
        AddCommand_def StringVar_def IntVar_def BoolVarP_def)

text \<open>
  C8. The \<open>Run\<close> body of the root command makes one call, to the command's help
  function with the command and its arguments, and nothing else: no client call is added
  to the trace and the flag variables are unchanged.
\<close>

theorem Run_prints_help_only:
  "Run cmd args s = s\<lparr>trace := trace s @ [Call_HelpFunc cmd args]\<rparr> \<and>
   filter is_client_call (trace (Run cmd args s)) = filter is_client_call (trace s)"
  by (simp add: Run_def record_call_def)

end
